theory Spec2Isabelle
  imports Complex_Main "HOL-Library.AList"
begin

section \<open>Python values\<close>

text \<open>
  A transcript is a JSON-like Python value.  Dictionaries keep their insertion order, so
  they are association lists keyed by strings; a finite float is the rational it denotes,
  and \<open>//\<close> and \<open>%\<close> on it are taken exactly.  Strings are lists of characters
  with code points below 256.
\<close>

datatype pyval =
    PNone
  | PBool bool
  | PInt int
  | PFloat rat
  | PStr string
  | PList "pyval list"
  | PDict "(string \<times> pyval) list"

type_synonym pydict = "(string \<times> pyval) list"

datatype error =
    ValueError string
  | KeyError string
  | TypeError
  | AttributeError
  | IndexError
  | WriterError
  | FileNotFoundError
  | JSONDecodeError
  | HTTPException nat string

text \<open>\<open>d.get(key, default)\<close> on a dictionary.\<close>

definition dict_get :: "pydict \<Rightarrow> string \<Rightarrow> pyval \<Rightarrow> pyval" where
  "dict_get d k dflt = (case map_of d k of None \<Rightarrow> dflt | Some v \<Rightarrow> v)"

text \<open>\<open>d[key]\<close>: a missing key raises KeyError.\<close>

definition dict_item :: "pydict \<Rightarrow> string \<Rightarrow> error + pyval" where
  "dict_item d k = (case map_of d k of None \<Rightarrow> Inl (KeyError k) | Some v \<Rightarrow> Inr v)"

text \<open>\<open>d[key] = v\<close>: an existing key keeps its place, a new one goes last.\<close>

definition dict_set :: "pydict \<Rightarrow> string \<Rightarrow> pyval \<Rightarrow> pydict" where
  "dict_set d k v = AList.update k v d"

text \<open>\<open>x.get(key, default)\<close> on any value: only a dictionary has the method.\<close>

definition py_get :: "pyval \<Rightarrow> string \<Rightarrow> pyval \<Rightarrow> error + pyval" where
  "py_get x k dflt = (case x of PDict d \<Rightarrow> Inr (dict_get d k dflt) | _ \<Rightarrow> Inl AttributeError)"

text \<open>Truth value of a Python object, as \<open>if x:\<close> takes it.\<close>

fun truthy :: "pyval \<Rightarrow> bool" where
  "truthy PNone = False"
| "truthy (PBool b) = b"
| "truthy (PInt i) = (i \<noteq> 0)"
| "truthy (PFloat r) = (r \<noteq> 0)"
| "truthy (PStr s) = (s \<noteq> [])"
| "truthy (PList xs) = (xs \<noteq> [])"
| "truthy (PDict d) = (d \<noteq> [])"

text \<open>The elements a \<open>for\<close> loop draws from a value.\<close>

fun py_iter :: "pyval \<Rightarrow> error + pyval list" where
  "py_iter (PList xs) = Inr xs"
| "py_iter (PDict d) = Inr (map (\<lambda>kv. PStr (fst kv)) d)"
| "py_iter (PStr s) = Inr (map (\<lambda>c. PStr [c]) s)"
| "py_iter _ = Inl TypeError"

text \<open>The number a value stands for in arithmetic; \<open>bool\<close> is a subclass of \<open>int\<close>.\<close>

fun as_number :: "pyval \<Rightarrow> rat option" where
  "as_number (PBool b) = Some (if b then 1 else 0)"
| "as_number (PInt i) = Some (of_int i)"
| "as_number (PFloat r) = Some r"
| "as_number _ = None"

section \<open>Strings\<close>

text \<open>\<open>str.isspace\<close> on the code points below 256.\<close>

definition isspace :: "char \<Rightarrow> bool" where
  "isspace c = ((of_char c :: nat) \<in> {9, 10, 11, 12, 13, 28, 29, 30, 31, 32, 133, 160})"

definition lstrip :: "string \<Rightarrow> string" where
  "lstrip s = dropWhile isspace s"

definition rstrip :: "string \<Rightarrow> string" where
  "rstrip s = rev (dropWhile isspace (rev s))"

definition strip :: "string \<Rightarrow> string" where
  "strip s = rstrip (lstrip s)"

text \<open>\<open>sep.join(lines)\<close>.\<close>

fun join :: "string \<Rightarrow> string list \<Rightarrow> string" where
  "join sep [] = []"
| "join sep [x] = x"
| "join sep (x # y # ys) = x @ sep @ join sep (y # ys)"

text \<open>\<open>text.replace("|", "\\|")\<close>.\<close>

definition escape_pipes :: "string \<Rightarrow> string" where
  "escape_pipes s = concat (map (\<lambda>c. if c = CHR ''|'' then [CHR 0x5C, CHR ''|''] else [c]) s)"

section \<open>Decimal formatting\<close>

definition digit_char :: "nat \<Rightarrow> char" where
  "digit_char n = ''0123456789'' ! (n mod 10)"

fun dec_digits :: "nat \<Rightarrow> string" where
  "dec_digits n = (if n < 10 then [digit_char n] else dec_digits (n div 10) @ [digit_char n])"

declare dec_digits.simps [simp del]

text \<open>The format specification \<open>02d\<close>: zero padding to width two, the sign counting.\<close>

definition fmt_02d :: "int \<Rightarrow> string" where
  "fmt_02d n =
     (if n < 0 then CHR ''-'' # dec_digits (nat (- n))
      else replicate (2 - length (dec_digits (nat n))) CHR ''0'' @ dec_digits (nat n))"

section \<open>Timestamps\<close>

definition py_floordiv :: "rat \<Rightarrow> rat \<Rightarrow> rat" where
  "py_floordiv x y = of_int \<lfloor>x / y\<rfloor>"

definition py_mod :: "rat \<Rightarrow> rat \<Rightarrow> rat" where
  "py_mod x y = x - y * of_int \<lfloor>x / y\<rfloor>"

text \<open>\<open>int(x)\<close> truncates towards zero.\<close>

definition py_int :: "rat \<Rightarrow> int" where
  "py_int x = (if 0 \<le> x then \<lfloor>x\<rfloor> else \<lceil>x\<rceil>)"

definition format_timestamp :: "rat \<Rightarrow> string" where
  "format_timestamp seconds =
     (let hours = py_int (py_floordiv seconds 3600);
          minutes = py_int (py_floordiv (py_mod seconds 3600) 60);
          secs = py_int (py_mod seconds 60)
      in if hours > 0 then fmt_02d hours @ '':'' @ fmt_02d minutes @ '':'' @ fmt_02d secs
         else fmt_02d minutes @ '':'' @ fmt_02d secs)"


section \<open>Reading a segment\<close>

text \<open>
  Every loop of the markdown formatters reads a segment the same way.
  \<open>segment.get("speaker", "Unknown")\<close>:
\<close>

definition get_speaker :: "pyval \<Rightarrow> error + pyval" where
  "get_speaker segment = py_get segment ''speaker'' (PStr ''Unknown'')"

text \<open>\<open>segment.get("text", "").strip()\<close>: only a string can be stripped.\<close>

definition get_text :: "pyval \<Rightarrow> error + string" where
  "get_text segment =
     (case py_get segment ''text'' (PStr []) of
        Inl e \<Rightarrow> Inl e
      | Inr (PStr s) \<Rightarrow> Inr (strip s)
      | Inr _ \<Rightarrow> Inl AttributeError)"

text \<open>\<open>_format_timestamp(segment.get("start", 0))\<close>: the arithmetic needs a number.\<close>

definition get_timestamp :: "pyval \<Rightarrow> error + string" where
  "get_timestamp segment =
     (case py_get segment ''start'' (PInt 0) of
        Inl e \<Rightarrow> Inl e
      | Inr v \<Rightarrow> (case as_number v of None \<Rightarrow> Inl TypeError | Some x \<Rightarrow> Inr (format_timestamp x)))"

text \<open>
  A value placed in an f-string: a string stands for itself, anything else goes through
  Python's built-in \<open>str\<close>, which the formatters receive as the parameter \<open>str\<close>.
\<close>

definition fmt_value :: "(pyval \<Rightarrow> string) \<Rightarrow> pyval \<Rightarrow> string" where
  "fmt_value str v = (case v of PStr s \<Rightarrow> s | _ \<Rightarrow> str v)"

text \<open>
  \<open>for segment in segments: ...\<close> where the body either raises, or appends some
  lines to \<open>lines\<close> (none when it runs into \<open>continue\<close>).
\<close>

fun for_segments ::
  "(pyval \<Rightarrow> error + string list) \<Rightarrow> pyval list \<Rightarrow> string list \<Rightarrow> error + string list" where
  "for_segments body [] lines = Inr lines"
| "for_segments body (segment # rest) lines =
     (case body segment of
        Inl e \<Rightarrow> Inl e
      | Inr new \<Rightarrow> for_segments body rest (lines @ new))"

definition get_segments :: "pydict \<Rightarrow> pyval" where
  "get_segments transcript =
     (case dict_get transcript ''segments'' (PDict []) of
        PDict segments \<Rightarrow> dict_get segments ''segments'' (PList [])
      | segments \<Rightarrow> segments)"

section \<open>The markdown formatters\<close>

definition md_basic_body :: "(pyval \<Rightarrow> string) \<Rightarrow> bool \<Rightarrow> pyval \<Rightarrow> error + string list" where
  "md_basic_body str include_timestamps segment =
     (case get_speaker segment of Inl e \<Rightarrow> Inl e | Inr speaker \<Rightarrow>
     (case get_text segment of Inl e \<Rightarrow> Inl e | Inr text \<Rightarrow>
      if text = [] then Inr []
      else if include_timestamps then
        (case get_timestamp segment of Inl e \<Rightarrow> Inl e | Inr timestamp \<Rightarrow>
           Inr [fmt_value str speaker @ '' ['' @ timestamp @ '']: '' @ text, []])
      else Inr [fmt_value str speaker @ '': '' @ text, []]))"

definition format_md_basic :: "(pyval \<Rightarrow> string) \<Rightarrow> pydict \<Rightarrow> bool \<Rightarrow> error + string" where
  "format_md_basic str transcript include_timestamps =
     (case py_iter (get_segments transcript) of Inl e \<Rightarrow> Inl e | Inr segments \<Rightarrow>
     (case for_segments (md_basic_body str include_timestamps) segments [] of
        Inl e \<Rightarrow> Inl e
      | Inr lines \<Rightarrow> Inr (strip (join [CHR 0x0A] lines))))"

definition md_list_body :: "(pyval \<Rightarrow> string) \<Rightarrow> bool \<Rightarrow> pyval \<Rightarrow> error + string list" where
  "md_list_body str include_timestamps segment =
     (case get_speaker segment of Inl e \<Rightarrow> Inl e | Inr speaker \<Rightarrow>
     (case get_text segment of Inl e \<Rightarrow> Inl e | Inr text \<Rightarrow>
      if text = [] then Inr []
      else if include_timestamps then
        (case get_timestamp segment of Inl e \<Rightarrow> Inl e | Inr timestamp \<Rightarrow>
           Inr [''- **'' @ fmt_value str speaker @ ''** ['' @ timestamp @ '']: '' @ text])
      else Inr [''- **'' @ fmt_value str speaker @ ''**: '' @ text]))"

definition format_md_list :: "(pyval \<Rightarrow> string) \<Rightarrow> pydict \<Rightarrow> bool \<Rightarrow> error + string" where
  "format_md_list str transcript include_timestamps =
     (case py_iter (get_segments transcript) of Inl e \<Rightarrow> Inl e | Inr segments \<Rightarrow>
     (case for_segments (md_list_body str include_timestamps) segments [] of
        Inl e \<Rightarrow> Inl e
      | Inr lines \<Rightarrow> Inr (join [CHR 0x0A] lines)))"

definition md_quote_body :: "(pyval \<Rightarrow> string) \<Rightarrow> bool \<Rightarrow> pyval \<Rightarrow> error + string list" where
  "md_quote_body str include_timestamps segment =
     (case get_speaker segment of Inl e \<Rightarrow> Inl e | Inr speaker \<Rightarrow>
     (case get_text segment of Inl e \<Rightarrow> Inl e | Inr text \<Rightarrow>
      if text = [] then Inr []
      else if include_timestamps then
        (case get_timestamp segment of Inl e \<Rightarrow> Inl e | Inr timestamp \<Rightarrow>
           Inr [''> **'' @ fmt_value str speaker @ ''** ['' @ timestamp @ '']: '' @ text, ''>''])
      else Inr [''> **'' @ fmt_value str speaker @ ''**: '' @ text, ''>'']))"

text \<open>The trailing \<open>">"\<close> line is popped before joining.\<close>

definition format_md_quote :: "(pyval \<Rightarrow> string) \<Rightarrow> pydict \<Rightarrow> bool \<Rightarrow> error + string" where
  "format_md_quote str transcript include_timestamps =
     (case py_iter (get_segments transcript) of Inl e \<Rightarrow> Inl e | Inr segments \<Rightarrow>
     (case for_segments (md_quote_body str include_timestamps) segments [] of
        Inl e \<Rightarrow> Inl e
      | Inr lines \<Rightarrow>
          Inr (join [CHR 0x0A]
                 (if lines \<noteq> [] \<and> last lines = ''>'' then butlast lines else lines))))"

text \<open>
  \<open>==\<close> on Python values: numbers compare by value whatever their type, lists
  element by element, dictionaries key by key whatever their order.
\<close>

primrec py_eq :: "pyval \<Rightarrow> pyval \<Rightarrow> bool" where
  "py_eq PNone b = (b = PNone)"
| "py_eq (PBool x) b = (as_number b = Some (if x then 1 else 0))"
| "py_eq (PInt i) b = (as_number b = Some (of_int i))"
| "py_eq (PFloat r) b = (as_number b = Some r)"
| "py_eq (PStr s) b = (b = PStr s)"
| "py_eq (PList xs) b =
     (case b of PList ys \<Rightarrow> list_all2 (\<lambda>f y. f y) (map py_eq xs) ys | _ \<Rightarrow> False)"
| "py_eq (PDict d) b =
     (case b of
        PDict e \<Rightarrow>
          set (map fst e) \<subseteq> set (map fst d) \<and>
          list_all (\<lambda>kf. case map_of e (fst kf) of None \<Rightarrow> False | Some w \<Rightarrow> snd kf w)
            (map (map_prod id py_eq) d)
      | _ \<Rightarrow> False)"

text \<open>
  The body of the loop of \<open>_format_two_speaker_table\<close>; \<open>speaker0\<close> is
  \<open>speakers[0]\<close>.
\<close>

definition two_speaker_body :: "pyval \<Rightarrow> bool \<Rightarrow> pyval \<Rightarrow> error + string list" where
  "two_speaker_body speaker0 include_timestamps segment =
     (case get_speaker segment of Inl e \<Rightarrow> Inl e | Inr speaker \<Rightarrow>
     (case get_text segment of Inl e \<Rightarrow> Inl e | Inr text \<Rightarrow>
      if text = [] then Inr []
      else
        (case (if include_timestamps then
                 (case get_timestamp segment of Inl e \<Rightarrow> Inl e
                  | Inr timestamp \<Rightarrow> Inr (''['' @ timestamp @ ''] '' @ escape_pipes text))
               else Inr (escape_pipes text)) of
           Inl e \<Rightarrow> Inl e
         | Inr text' \<Rightarrow>
             Inr [''| '' @ (if py_eq speaker speaker0 then text' else [])
                  @ '' | '' @ (if py_eq speaker speaker0 then [] else text') @ '' |''])))"

text \<open>\<open>speakers[0]\<close> and \<open>speakers[1]\<close> raise IndexError on a shorter list.\<close>

definition format_two_speaker_table ::
  "(pyval \<Rightarrow> string) \<Rightarrow> pyval \<Rightarrow> pyval list \<Rightarrow> bool \<Rightarrow> error + string" where
  "format_two_speaker_table str segments speakers include_timestamps =
     (case speakers of
        speaker0 # speaker1 # _ \<Rightarrow>
          (case py_iter segments of Inl e \<Rightarrow> Inl e | Inr segs \<Rightarrow>
          (case for_segments (two_speaker_body speaker0 include_timestamps) segs
                  [''| '' @ fmt_value str speaker0 @ '' | '' @ fmt_value str speaker1 @ '' |'',
                   ''| --- | --- |''] of
             Inl e \<Rightarrow> Inl e
           | Inr lines \<Rightarrow> Inr (join [CHR 0x0A] lines)))
      | _ \<Rightarrow> Inl IndexError)"

definition multi_speaker_body :: "(pyval \<Rightarrow> string) \<Rightarrow> bool \<Rightarrow> pyval \<Rightarrow> error + string list" where
  "multi_speaker_body str include_timestamps segment =
     (case get_speaker segment of Inl e \<Rightarrow> Inl e | Inr speaker \<Rightarrow>
     (case get_text segment of Inl e \<Rightarrow> Inl e | Inr text \<Rightarrow>
      if text = [] then Inr []
      else if include_timestamps then
        (case get_timestamp segment of Inl e \<Rightarrow> Inl e | Inr timestamp \<Rightarrow>
           Inr [''| '' @ timestamp @ '' | '' @ fmt_value str speaker @ '' | ''
                @ escape_pipes text @ '' |''])
      else Inr [''| '' @ fmt_value str speaker @ '' | '' @ escape_pipes text @ '' |'']))"

definition format_multi_speaker_table ::
  "(pyval \<Rightarrow> string) \<Rightarrow> pyval \<Rightarrow> bool \<Rightarrow> error + string" where
  "format_multi_speaker_table str segments include_timestamps =
     (case py_iter segments of Inl e \<Rightarrow> Inl e | Inr segs \<Rightarrow>
     (case for_segments (multi_speaker_body str include_timestamps) segs
             (if include_timestamps
              then [''| Time | Speaker | Message |'', ''| --- | --- | --- |'']
              else [''| Speaker | Message |'', ''| --- | --- |'']) of
        Inl e \<Rightarrow> Inl e
      | Inr lines \<Rightarrow> Inr (join [CHR 0x0A] lines)))"

text \<open>
  The key under which a value is hashed: equal numbers share one whatever their type;
  lists and dictionaries are unhashable.
\<close>

datatype pykey = KNone | KNum rat | KStr string

fun key_of :: "pyval \<Rightarrow> pykey option" where
  "key_of PNone = Some KNone"
| "key_of (PStr s) = Some (KStr s)"
| "key_of (PList _) = None"
| "key_of (PDict _) = None"
| "key_of v = map_option KNum (as_number v)"

text \<open>
  \<open>list(OrderedDict.fromkeys(seg.get("speaker", "Unknown") for seg in segments
  if seg.get("text", "").strip()))\<close>: the condition is evaluated before the speaker,
  each new key goes last, and a key seen before keeps its first value.
\<close>

fun detect_speakers :: "pyval list \<Rightarrow> pyval list \<Rightarrow> error + pyval list" where
  "detect_speakers [] speakers = Inr speakers"
| "detect_speakers (seg # rest) speakers =
     (case get_text seg of Inl e \<Rightarrow> Inl e | Inr text \<Rightarrow>
      if text = [] then detect_speakers rest speakers
      else
        (case get_speaker seg of Inl e \<Rightarrow> Inl e | Inr speaker \<Rightarrow>
        (case key_of speaker of
           None \<Rightarrow> Inl TypeError
         | Some k \<Rightarrow>
             if Some k \<in> set (map key_of speakers) then detect_speakers rest speakers
             else detect_speakers rest (speakers @ [speaker]))))"

definition format_md_table :: "(pyval \<Rightarrow> string) \<Rightarrow> pydict \<Rightarrow> bool \<Rightarrow> error + string" where
  "format_md_table str transcript include_timestamps =
     (let segments = get_segments transcript in
      case py_iter segments of Inl e \<Rightarrow> Inl e | Inr segs \<Rightarrow>
     (case detect_speakers segs [] of Inl e \<Rightarrow> Inl e | Inr speakers \<Rightarrow>
      if length speakers = 2
      then format_two_speaker_table str segments speakers include_timestamps
      else format_multi_speaker_table str segments include_timestamps))"

section \<open>The formats of whisperx\<close>

text \<open>
  The subtitle writers \<open>WriteSRT\<close>, \<open>WriteVTT\<close> and \<open>WriteAudacity\<close> belong to the
  whisperx library.  A writer is taken as a parameter: from the result record and the
  options it yields the pieces of text it passes to \<open>write\<close>, or fails.  It is taken
  not to change the record it is given.
\<close>

datatype writer_class = WriteSRT | WriteVTT | WriteAudacity

type_synonym write_result = "writer_class \<Rightarrow> pydict \<Rightarrow> pydict \<Rightarrow> string list option"

text \<open>What the module takes from outside: Python's \<open>str\<close> and the writers.\<close>

record externals =
  py_str :: "pyval \<Rightarrow> string"
  writers :: write_result

text \<open>The class \<open>ListWriter\<close>: the state of an instance is its field \<open>lines\<close>.\<close>

definition ListWriter_init :: "string list" where
  "ListWriter_init = []"

definition ListWriter_write :: "string list \<Rightarrow> string \<Rightarrow> string list" where
  "ListWriter_write lines text = lines @ [text]"

definition ListWriter_get_output :: "string list \<Rightarrow> string" where
  "ListWriter_get_output lines = concat lines"

text \<open>\<open>options.update(other)\<close>, key by key.\<close>

definition dict_update :: "pydict \<Rightarrow> pydict \<Rightarrow> pydict" where
  "dict_update d other = foldl (\<lambda>acc kv. dict_set acc (fst kv) (snd kv)) d other"

definition update_options :: "pydict \<Rightarrow> pydict \<Rightarrow> pydict" where
  "update_options kwargs defaults =
     dict_update defaults (map (\<lambda>kv. (fst kv, dict_get kwargs (fst kv) (snd kv))) defaults)"

text \<open>
  \<open>handle_whisperx_format\<close> writes into the transcript it is given, so it returns the
  transcript as it leaves it next to its result.  In
  \<open>transcript["segments"]["language"] = transcript["language"]\<close> the right-hand side
  is evaluated first; the assignment needs \<open>transcript["segments"]\<close> to be a dictionary.
\<close>

definition handle_whisperx_format ::
  "write_result \<Rightarrow> pydict \<Rightarrow> writer_class \<Rightarrow> pydict \<Rightarrow> (error + string) \<times> pydict" where
  "handle_whisperx_format write transcript writer_class options =
     (case dict_item transcript ''language'' of
        Inl e \<Rightarrow> (Inl e, transcript)
      | Inr language \<Rightarrow>
     (case dict_item transcript ''segments'' of
        Inl e \<Rightarrow> (Inl e, transcript)
      | Inr (PDict segments) \<Rightarrow>
          (let segments' = dict_set segments ''language'' language;
               transcript' = dict_set transcript ''segments'' (PDict segments')
           in case write writer_class segments' options of
                None \<Rightarrow> (Inl WriterError, transcript')
              | Some pieces \<Rightarrow>
                  (Inr (ListWriter_get_output (foldl ListWriter_write ListWriter_init pieces)),
                   transcript'))
      | Inr _ \<Rightarrow> (Inl TypeError, transcript)))"

section \<open>Responses\<close>

text \<open>
  Modelled from the spec: the enumeration \<open>MediaType\<close> of
  \<open>whisperx_api_server.config\<close>, which is not among the sources; the members are
  those the formatter names, their values the media types of the specification.
\<close>

datatype media_type = APPLICATION_JSON | TEXT_PLAIN | TEXT_VTT | TEXT_MARKDOWN


text \<open>
  The response classes are FastAPI's: a response is what its constructor was given.
\<close>

datatype response_class = JSONResponse | Response

record response =
  response_class :: response_class
  content :: pyval
  media_type :: media_type

section \<open>\<open>format_transcription\<close>\<close>

definition text_response :: "error + string \<Rightarrow> media_type \<Rightarrow> error + response" where
  "text_response r mt =
     (case r of
        Inl e \<Rightarrow> Inl e
      | Inr s \<Rightarrow> Inr \<lparr>response_class = Response, content = PStr s, media_type = mt\<rparr>)"

text \<open>
  The result comes with the transcript as the call leaves it.  \<open>format\<close> is the format
  name, \<open>kwargs\<close> the keyword arguments.
\<close>

definition format_transcription ::
  "externals \<Rightarrow> pydict \<Rightarrow> string \<Rightarrow> pydict \<Rightarrow> (error + response) \<times> pydict" where
  "format_transcription ext transcript format kwargs =
     (let defaults = [(''max_line_width'', PInt 1000),
                      (''max_line_count'', PNone),
                      (''highlight_words'', dict_get kwargs ''highlight_words'' (PBool False))];
          options = update_options kwargs defaults;
          include_timestamps = truthy (dict_get kwargs ''include_timestamps'' (PBool False))
      in
      if format = ''json'' then
        (Inr \<lparr>response_class = JSONResponse,
              content = PDict [(''text'', dict_get transcript ''text'' (PStr []))],
              media_type = APPLICATION_JSON\<rparr>, transcript)
      else if format = ''verbose_json'' then
        (Inr \<lparr>response_class = JSONResponse, content = PDict transcript,
              media_type = APPLICATION_JSON\<rparr>, transcript)
      else if format = ''vtt_json'' then
        (case handle_whisperx_format (writers ext) transcript WriteVTT options of
           (Inl e, transcript') \<Rightarrow> (Inl e, transcript')
         | (Inr vtt_text, transcript') \<Rightarrow>
             (let transcript'' = dict_set transcript' ''vtt_text'' (PStr vtt_text)
              in (Inr \<lparr>response_class = JSONResponse, content = PDict transcript'',
                       media_type = APPLICATION_JSON\<rparr>, transcript'')))
      else if format = ''text'' then
        (Inr \<lparr>response_class = Response, content = dict_get transcript ''text'' (PStr []),
              media_type = TEXT_PLAIN\<rparr>, transcript)
      else if format = ''srt'' then
        (case handle_whisperx_format (writers ext) transcript WriteSRT options of
           (r, transcript') \<Rightarrow> (text_response r TEXT_PLAIN, transcript'))
      else if format = ''vtt'' then
        (case handle_whisperx_format (writers ext) transcript WriteVTT options of
           (r, transcript') \<Rightarrow> (text_response r TEXT_VTT, transcript'))
      else if format = ''aud'' then
        (case handle_whisperx_format (writers ext) transcript WriteAudacity options of
           (r, transcript') \<Rightarrow> (text_response r TEXT_PLAIN, transcript'))
      else if format = ''md_basic'' then
        (text_response (format_md_basic (py_str ext) transcript include_timestamps) TEXT_MARKDOWN,
         transcript)
      else if format = ''md_list'' then
        (text_response (format_md_list (py_str ext) transcript include_timestamps) TEXT_MARKDOWN,
         transcript)
      else if format = ''md_quote'' then
        (text_response (format_md_quote (py_str ext) transcript include_timestamps) TEXT_MARKDOWN,
         transcript)
      else if format = ''md_table'' then
        (text_response (format_md_table (py_str ext) transcript include_timestamps) TEXT_MARKDOWN,
         transcript)
      else (Inl (ValueError (''Unsupported format: '' @ format)), transcript))"

section \<open>API keys\<close>













section \<open>Notions used in the statements\<close>




text \<open>The eleven format names.\<close>

definition supported_formats :: "string list" where
  "supported_formats =
     [''json'', ''verbose_json'', ''vtt_json'', ''text'', ''srt'', ''vtt'', ''aud'',
      ''md_basic'', ''md_list'', ''md_quote'', ''md_table'']"


text \<open>The options \<open>format_transcription\<close> hands to a writer, and its timestamp switch.\<close>

definition writer_options :: "pydict \<Rightarrow> pydict" where
  "writer_options kwargs =
     update_options kwargs
       [(''max_line_width'', PInt 1000),
        (''max_line_count'', PNone),
        (''highlight_words'', dict_get kwargs ''highlight_words'' (PBool False))]"

definition timestamps_wanted :: "pydict \<Rightarrow> bool" where
  "timestamps_wanted kwargs = truthy (dict_get kwargs ''include_timestamps'' (PBool False))"

text \<open>
  The transcript after the language has been written into its nested record; a
  transcript without a language, or whose \<open>segments\<close> is no dictionary, stays as it is.
\<close>

definition with_language :: "pydict \<Rightarrow> pydict" where
  "with_language transcript =
     (case map_of transcript ''language'' of
        None \<Rightarrow> transcript
      | Some language \<Rightarrow>
          (case map_of transcript ''segments'' of
             Some (PDict segments) \<Rightarrow>
               dict_set transcript ''segments'' (PDict (dict_set segments ''language'' language))
           | _ \<Rightarrow> transcript))"


text \<open>
  A blank segment: a record whose \<open>text\<close> is missing, or is a string that is empty
  once stripped.  The visible segments are the others.
\<close>

definition blank_segment :: "pyval \<Rightarrow> bool" where
  "blank_segment seg =
     (case seg of
        PDict d \<Rightarrow>
          (case map_of d ''text'' of
             None \<Rightarrow> True
           | Some (PStr s) \<Rightarrow> strip s = []
           | Some _ \<Rightarrow> False)
      | _ \<Rightarrow> False)"

definition visible_segments :: "pyval list \<Rightarrow> pyval list" where
  "visible_segments segs = filter (\<lambda>seg. \<not> blank_segment seg) segs"



section \<open>Examples\<close>

text \<open>
  Stand-ins for what comes from outside, for evaluating the definitions on examples: a
  \<open>str\<close> that knows \<open>None\<close> only, and a writer that writes a header line.
\<close>

definition example_ext :: externals where
  "example_ext =
     \<lparr>py_str = (\<lambda>v. ''None''),
      writers = (\<lambda>writer_class result options. Some [''WEBVTT'', [CHR 0x0A]])\<rparr>"

definition example_segments :: "pyval list" where
  "example_segments =
     [PDict [(''speaker'', PStr ''A''), (''text'', PStr '' hi | there ''), (''start'', PFloat (3 / 2))],
      PDict [(''speaker'', PStr ''B''), (''text'', PStr ''   '')],
      PDict [(''text'', PStr ''yo''), (''start'', PInt 3700)]]"

definition example_transcript :: pydict where
  "example_transcript =
     [(''text'', PStr ''hi there yo''),
      (''language'', PStr ''en''),
      (''segments'', PDict [(''segments'', PList example_segments)])]"

text \<open>The other shape: \<open>segments\<close> is the list itself.\<close>

definition example_flat_transcript :: pydict where
  "example_flat_transcript =
     [(''language'', PStr ''en''), (''segments'', PList example_segments)]"






section \<open>The shape of a timestamp\<close>


















section \<open>\<open>format_transcription\<close>, format by format\<close>

lemma handle_whisperx_format_cases:
  "handle_whisperx_format w t wc opts =
     (case map_of t ''language'' of
        None \<Rightarrow> (Inl (KeyError ''language''), t)
      | Some language \<Rightarrow>
          (case map_of t ''segments'' of
             None \<Rightarrow> (Inl (KeyError ''segments''), t)
           | Some (PDict segments) \<Rightarrow>
               (case w wc (dict_set segments ''language'' language) opts of
                  None \<Rightarrow> (Inl WriterError, with_language t)
                | Some pieces \<Rightarrow> (Inr (concat pieces), with_language t))
           | Some _ \<Rightarrow> (Inl TypeError, t)))"
proof -
  have c: "foldl ListWriter_write acc pieces = acc @ pieces" for acc pieces
    by (induction pieces arbitrary: acc) (simp_all add: ListWriter_write_def)
  show ?thesis
    by (simp add: handle_whisperx_format_def dict_item_def with_language_def Let_def c
        ListWriter_init_def ListWriter_get_output_def split: option.splits pyval.splits)
qed

lemma handle_whisperx_format_snd:
  "snd (handle_whisperx_format w t wc opts) = t \<or> snd (handle_whisperx_format w t wc opts) = with_language t"
  by (simp add: handle_whisperx_format_cases split: option.splits pyval.splits)

lemma format_json [simp]:
  "format_transcription ext t ''json'' kw =
     (Inr \<lparr>response_class = JSONResponse,
           content = PDict [(''text'', dict_get t ''text'' (PStr []))],
           media_type = APPLICATION_JSON\<rparr>, t)"
  by (simp add: format_transcription_def)

lemma format_verbose_json [simp]:
  "format_transcription ext t ''verbose_json'' kw =
     (Inr \<lparr>response_class = JSONResponse, content = PDict t, media_type = APPLICATION_JSON\<rparr>, t)"
  by (simp add: format_transcription_def)

lemma format_text [simp]:
  "format_transcription ext t ''text'' kw =
     (Inr \<lparr>response_class = Response, content = dict_get t ''text'' (PStr []),
           media_type = TEXT_PLAIN\<rparr>, t)"
  by (simp add: format_transcription_def)

lemma format_vtt_json [simp]:
  "format_transcription ext t ''vtt_json'' kw =
     (case handle_whisperx_format (writers ext) t WriteVTT (writer_options kw) of
        (Inl e, t') \<Rightarrow> (Inl e, t')
      | (Inr vtt_text, t') \<Rightarrow>
          (Inr \<lparr>response_class = JSONResponse,
                content = PDict (dict_set t' ''vtt_text'' (PStr vtt_text)),
                media_type = APPLICATION_JSON\<rparr>,
           dict_set t' ''vtt_text'' (PStr vtt_text)))"
  by (simp add: format_transcription_def writer_options_def Let_def split: prod.splits sum.splits)

lemma format_srt [simp]:
  "format_transcription ext t ''srt'' kw =
     (text_response (fst (handle_whisperx_format (writers ext) t WriteSRT (writer_options kw))) TEXT_PLAIN,
      snd (handle_whisperx_format (writers ext) t WriteSRT (writer_options kw)))"
  by (simp add: format_transcription_def writer_options_def Let_def split: prod.splits)

lemma format_vtt [simp]:
  "format_transcription ext t ''vtt'' kw =
     (text_response (fst (handle_whisperx_format (writers ext) t WriteVTT (writer_options kw))) TEXT_VTT,
      snd (handle_whisperx_format (writers ext) t WriteVTT (writer_options kw)))"
  by (simp add: format_transcription_def writer_options_def Let_def split: prod.splits)

lemma format_aud [simp]:
  "format_transcription ext t ''aud'' kw =
     (text_response (fst (handle_whisperx_format (writers ext) t WriteAudacity (writer_options kw))) TEXT_PLAIN,
      snd (handle_whisperx_format (writers ext) t WriteAudacity (writer_options kw)))"
  by (simp add: format_transcription_def writer_options_def Let_def split: prod.splits)

lemma format_md_basic' [simp]:
  "format_transcription ext t ''md_basic'' kw =
     (text_response (format_md_basic (py_str ext) t (timestamps_wanted kw)) TEXT_MARKDOWN, t)"
  by (simp add: format_transcription_def timestamps_wanted_def)

lemma format_md_list' [simp]:
  "format_transcription ext t ''md_list'' kw =
     (text_response (format_md_list (py_str ext) t (timestamps_wanted kw)) TEXT_MARKDOWN, t)"
  by (simp add: format_transcription_def timestamps_wanted_def)

lemma format_md_quote' [simp]:
  "format_transcription ext t ''md_quote'' kw =
     (text_response (format_md_quote (py_str ext) t (timestamps_wanted kw)) TEXT_MARKDOWN, t)"
  by (simp add: format_transcription_def timestamps_wanted_def)

lemma format_md_table' [simp]:
  "format_transcription ext t ''md_table'' kw =
     (text_response (format_md_table (py_str ext) t (timestamps_wanted kw)) TEXT_MARKDOWN, t)"
  by (simp add: format_transcription_def timestamps_wanted_def)

lemma format_unsupported:
  "f \<notin> set supported_formats \<Longrightarrow>
   format_transcription ext t f kw = (Inl (ValueError (''Unsupported format: '' @ f)), t)"
  by (simp add: format_transcription_def supported_formats_def)


lemma text_response_Inr:
  "text_response x mt = Inr r \<longleftrightarrow>
     (\<exists>s. x = Inr s \<and> r = \<lparr>response_class = Response, content = PStr s, media_type = mt\<rparr>)"
  by (cases x) (auto simp: text_response_def)


lemma format_cases:
  "f \<notin> set supported_formats \<or> f = ''json'' \<or> f = ''verbose_json'' \<or> f = ''vtt_json''
   \<or> f = ''text'' \<or> f = ''srt'' \<or> f = ''vtt'' \<or> f = ''aud''
   \<or> f = ''md_basic'' \<or> f = ''md_list'' \<or> f = ''md_quote'' \<or> f = ''md_table''"
  by (auto simp: supported_formats_def)



subsection \<open>The errors a formatter can raise\<close>



























subsection \<open>What writing the language changes\<close>

lemma handle_whisperx_format_snd_eq:
  "snd (handle_whisperx_format w t wc opts) = with_language t"
  by (simp add: handle_whisperx_format_cases with_language_def split: option.splits pyval.splits)

lemma map_of_dict_set: "map_of (dict_set d k v) = (map_of d)(k \<mapsto> v)"
  by (simp add: dict_set_def update_conv')

lemma keys_dict_set: "k \<in> set (map fst d) \<Longrightarrow> map fst (dict_set d k v) = map fst d"
  by (simp add: dict_set_def update_keys)

lemma with_language_keys: "map fst (with_language t) = map fst t"
proof -
  have "map fst (dict_set t ''segments'' v) = map fst t" if "map_of t ''segments'' = Some x" for v x
    using that by (intro keys_dict_set) (metis map_of_eq_None_iff option.distinct(1) set_map)
  then show ?thesis
    by (auto simp: with_language_def split: option.splits pyval.splits)
qed

lemma with_language_other: "k \<noteq> ''segments'' \<Longrightarrow> map_of (with_language t) k = map_of t k"
  by (simp add: with_language_def map_of_dict_set split: option.splits pyval.splits)

lemma with_language_segments:
  "map_of t ''segments'' = Some (PDict segs) \<Longrightarrow>
   \<exists>segs'. map_of (with_language t) ''segments'' = Some (PDict segs')
      \<and> (\<forall>k. k \<noteq> ''language'' \<longrightarrow> map_of segs' k = map_of segs k)"
  by (simp add: with_language_def map_of_dict_set split: option.splits)

section \<open>Responses and media types\<close>





section \<open>Which errors are raised\<close>




section \<open>What a call leaves of the transcript\<close>

text \<open>
  Claim C3, amended.  Every format other than \<open>srt\<close>, \<open>vtt\<close>, \<open>aud\<close> and
  \<open>vtt_json\<close> leaves the transcript as it was.  Those four write the transcript's
  language into its nested \<open>segments\<close> record under the key \<open>language\<close>, and
  \<open>vtt_json\<close>, when the writer succeeds, also stores the output in the transcript
  under \<open>vtt_text\<close>.  Writing the language adds no key to the transcript, changes no
  key of it other than \<open>segments\<close>, and no key of the nested record other than
  \<open>language\<close>.
\<close>

theorem format_transcription_frame:
  "(f \<notin> {''srt'', ''vtt'', ''aud'', ''vtt_json''} \<longrightarrow> snd (format_transcription ext t f kw) = t)
   \<and> (f \<in> {''srt'', ''vtt'', ''aud''} \<longrightarrow> snd (format_transcription ext t f kw) = with_language t)
   \<and> (f = ''vtt_json'' \<longrightarrow>
        snd (format_transcription ext t f kw) =
          (case fst (handle_whisperx_format (writers ext) t WriteVTT (writer_options kw)) of
             Inl e \<Rightarrow> with_language t
           | Inr s \<Rightarrow> dict_set (with_language t) ''vtt_text'' (PStr s)))
   \<and> map fst (with_language t) = map fst t
   \<and> (\<forall>k. k \<noteq> ''segments'' \<longrightarrow> map_of (with_language t) k = map_of t k)
   \<and> (\<forall>segs. map_of t ''segments'' = Some (PDict segs) \<longrightarrow>
        (\<exists>segs'. map_of (with_language t) ''segments'' = Some (PDict segs')
           \<and> (\<forall>k. k \<noteq> ''language'' \<longrightarrow> map_of segs' k = map_of segs k)))"
proof (intro conjI allI impI)
  show "snd (format_transcription ext t f kw) = t"
    if "f \<notin> {''srt'', ''vtt'', ''aud'', ''vtt_json''}"
    using format_cases[of f] that
    by (elim disjE) (simp_all add: format_unsupported)
  show "snd (format_transcription ext t f kw) = with_language t"
    if "f \<in> {''srt'', ''vtt'', ''aud''}"
    using that by (auto simp: handle_whisperx_format_snd_eq)
  show "snd (format_transcription ext t f kw) =
          (case fst (handle_whisperx_format (writers ext) t WriteVTT (writer_options kw)) of
             Inl e \<Rightarrow> with_language t
           | Inr s \<Rightarrow> dict_set (with_language t) ''vtt_text'' (PStr s))"
    if "f = ''vtt_json''"
    using that handle_whisperx_format_snd_eq[of "writers ext" t WriteVTT "writer_options kw"]
    by (auto split: prod.splits sum.splits)
  show "map fst (with_language t) = map fst t" by (rule with_language_keys)
  show "map_of (with_language t) k = map_of t k" if "k \<noteq> ''segments''" for k
    using that by (rule with_language_other)
  show "\<exists>segs'. map_of (with_language t) ''segments'' = Some (PDict segs')
           \<and> (\<forall>k. k \<noteq> ''language'' \<longrightarrow> map_of segs' k = map_of segs k)"
    if "map_of t ''segments'' = Some (PDict segs)" for segs
    using that by (rule with_language_segments)
qed

theorem format_transcription_frame_witness:
  "''md_quote'' \<notin> {''srt'', ''vtt'', ''aud'', ''vtt_json''}
   \<and> snd (format_transcription example_ext example_transcript ''md_quote'' []) = example_transcript
   \<and> ''aud'' \<in> {''srt'', ''vtt'', ''aud''}
   \<and> snd (format_transcription example_ext example_transcript ''aud'' []) =
       [(''text'', PStr ''hi there yo''),
        (''language'', PStr ''en''),
        (''segments'', PDict [(''segments'', PList example_segments), (''language'', PStr ''en'')])]"
proof -
  have a: "''md_quote'' \<notin> {''srt'', ''vtt'', ''aud'', ''vtt_json''}" by simp
  have b: "''aud'' \<in> {''srt'', ''vtt'', ''aud''}" by simp
  have c: "with_language example_transcript =
       [(''text'', PStr ''hi there yo''),
        (''language'', PStr ''en''),
        (''segments'', PDict [(''segments'', PList example_segments), (''language'', PStr ''en'')])]"
    by code_simp
  from format_transcription_frame[of "''md_quote''" example_ext example_transcript "[]"] a
  have d: "snd (format_transcription example_ext example_transcript ''md_quote'' []) = example_transcript"
    by blast
  from format_transcription_frame[of "''aud''" example_ext example_transcript "[]"] b
  have e: "snd (format_transcription example_ext example_transcript ''aud'' []) =
      with_language example_transcript"
    by blast
  from a b c d e show ?thesis by simp
qed


text \<open>The input is not left unchanged: \<open>srt\<close> on the example transcript.\<close>

theorem format_transcription_writes_counterexample:
  "snd (format_transcription example_ext example_transcript ''srt'' []) \<noteq> example_transcript"
  by code_simp

section \<open>Determinism\<close>



section \<open>The shape the writers need\<close>

text \<open>
  Claim C10.  \<open>handle_whisperx_format\<close>, and with it \<open>format_transcription\<close> for
  \<open>srt\<close>, \<open>vtt\<close>, \<open>aud\<close> and \<open>vtt_json\<close>, succeeds only if the transcript has
  a \<open>language\<close> key and its \<open>segments\<close> value is a dictionary.  When \<open>segments\<close>
  is a list, which is what \<open>_get_segments\<close> then returns to the markdown formatters,
  the call raises (TypeError from the assignment, or KeyError when the language is
  missing too) and returns no response.
\<close>

theorem handle_whisperx_format_shape:
  "(\<forall>s. fst (handle_whisperx_format w t wc opts) = Inr s \<longrightarrow>
       (\<exists>language segments.
          map_of t ''language'' = Some language \<and> map_of t ''segments'' = Some (PDict segments)))
   \<and> (\<forall>r. f \<in> {''srt'', ''vtt'', ''aud'', ''vtt_json''} \<longrightarrow>
        fst (format_transcription ext t f kw) = Inr r \<longrightarrow>
       (\<exists>language segments.
          map_of t ''language'' = Some language \<and> map_of t ''segments'' = Some (PDict segments)))
   \<and> (\<forall>xs. map_of t ''segments'' = Some (PList xs) \<longrightarrow>
        get_segments t = PList xs
        \<and> handle_whisperx_format w t wc opts =
            (Inl (if map_of t ''language'' = None then KeyError ''language'' else TypeError), t)
        \<and> (f \<in> {''srt'', ''vtt'', ''aud'', ''vtt_json''} \<longrightarrow>
             (\<exists>e. fst (format_transcription ext t f kw) = Inl e)))"
proof (intro conjI allI impI)
  show h: "\<exists>language segments.
      map_of t ''language'' = Some language \<and> map_of t ''segments'' = Some (PDict segments)"
    if "fst (handle_whisperx_format w t wc opts) = Inr s" for s w wc opts
    using that by (auto simp: handle_whisperx_format_cases split: option.splits pyval.splits)
  show "\<exists>language segments.
      map_of t ''language'' = Some language \<and> map_of t ''segments'' = Some (PDict segments)"
    if "f \<in> {''srt'', ''vtt'', ''aud'', ''vtt_json''}"
      and "fst (format_transcription ext t f kw) = Inr r" for r
  proof -
    from that(1) consider "f = ''srt''" | "f = ''vtt''" | "f = ''aud''" | "f = ''vtt_json''"
      by auto
    then have "\<exists>wc s. fst (handle_whisperx_format (writers ext) t wc (writer_options kw)) = Inr s"
    proof cases
      case 1
      with that(2) show ?thesis by (auto simp: text_response_Inr)
    next
      case 2
      with that(2) show ?thesis by (auto simp: text_response_Inr)
    next
      case 3
      with that(2) show ?thesis by (auto simp: text_response_Inr)
    next
      case 4
      with that(2) have "\<exists>s. fst (handle_whisperx_format (writers ext) t WriteVTT (writer_options kw)) = Inr s"
        by (cases "handle_whisperx_format (writers ext) t WriteVTT (writer_options kw)")
           (auto split: sum.splits)
      then show ?thesis by blast
    qed
    then obtain wc s
      where "fst (handle_whisperx_format (writers ext) t wc (writer_options kw)) = Inr s"
      by blast
    then show ?thesis by (rule h)
  qed
  fix xs
  assume xs: "map_of t ''segments'' = Some (PList xs)"
  show "get_segments t = PList xs"
    using xs by (simp add: get_segments_def dict_get_def)
  show l: "handle_whisperx_format w t wc opts =
      (Inl (if map_of t ''language'' = None then KeyError ''language'' else TypeError), t)"
    for w wc opts
    using xs by (simp add: handle_whisperx_format_cases split: option.splits)
  show "\<exists>e. fst (format_transcription ext t f kw) = Inl e"
    if "f \<in> {''srt'', ''vtt'', ''aud'', ''vtt_json''}"
    using that by (auto simp: l text_response_def)
qed

theorem handle_whisperx_format_shape_witness:
  "map_of example_flat_transcript ''segments'' = Some (PList example_segments)
   \<and> get_segments example_flat_transcript = PList example_segments
   \<and> handle_whisperx_format (writers example_ext) example_flat_transcript WriteSRT [] =
       (Inl TypeError, example_flat_transcript)
   \<and> fst (handle_whisperx_format (writers example_ext) example_transcript WriteSRT []) =
       Inr (''WEBVTT'' @ [CHR 0x0A])
   \<and> (\<exists>language segments.
          map_of example_transcript ''language'' = Some language
          \<and> map_of example_transcript ''segments'' = Some (PDict segments))"
proof -
  have a: "map_of example_flat_transcript ''segments'' = Some (PList example_segments)"
    by (simp add: example_flat_transcript_def)
  have b: "map_of example_flat_transcript ''language'' \<noteq> None"
    by (simp add: example_flat_transcript_def)
  have c: "fst (handle_whisperx_format (writers example_ext) example_transcript WriteSRT []) =
       Inr (''WEBVTT'' @ [CHR 0x0A])"
    by code_simp
  note th = handle_whisperx_format_shape[of "writers example_ext" example_flat_transcript
      WriteSRT "[]" "''srt''" example_ext "[]"]
  note th2 = handle_whisperx_format_shape[of "writers example_ext" example_transcript
      WriteSRT "[]" "''srt''" example_ext "[]"]
  from th a b have d: "get_segments example_flat_transcript = PList example_segments"
    "handle_whisperx_format (writers example_ext) example_flat_transcript WriteSRT [] =
       (Inl TypeError, example_flat_transcript)"
    by auto
  from th2 c have e: "\<exists>language segments.
          map_of example_transcript ''language'' = Some language
          \<and> map_of example_transcript ''segments'' = Some (PDict segments)"
    by blast
  from a c d e show ?thesis by blast
qed

section \<open>Loading the API keys\<close>












section \<open>Blank segments\<close>

lemma blank_segment_text: "blank_segment seg \<longleftrightarrow> get_text seg = Inr []"
  by (auto simp: blank_segment_def get_text_def py_get_def dict_get_def strip_def rstrip_def lstrip_def
      split: pyval.splits option.splits)

lemma blank_segment_speaker: "blank_segment seg \<Longrightarrow> \<exists>v. get_speaker seg = Inr v"
  by (auto simp: blank_segment_def get_speaker_def py_get_def split: pyval.splits)

lemma blank_md_basic_body: "blank_segment seg \<Longrightarrow> md_basic_body str ts seg = Inr []"
  using blank_segment_speaker[of seg] by (auto simp: md_basic_body_def blank_segment_text)

lemma blank_md_list_body: "blank_segment seg \<Longrightarrow> md_list_body str ts seg = Inr []"
  using blank_segment_speaker[of seg] by (auto simp: md_list_body_def blank_segment_text)

lemma blank_md_quote_body: "blank_segment seg \<Longrightarrow> md_quote_body str ts seg = Inr []"
  using blank_segment_speaker[of seg] by (auto simp: md_quote_body_def blank_segment_text)

lemma blank_two_speaker_body: "blank_segment seg \<Longrightarrow> two_speaker_body s0 ts seg = Inr []"
  using blank_segment_speaker[of seg] by (auto simp: two_speaker_body_def blank_segment_text)

lemma blank_multi_speaker_body: "blank_segment seg \<Longrightarrow> multi_speaker_body str ts seg = Inr []"
  using blank_segment_speaker[of seg] by (auto simp: multi_speaker_body_def blank_segment_text)

lemma for_segments_visible:
  assumes "\<And>seg. blank_segment seg \<Longrightarrow> body seg = Inr []"
  shows "for_segments body (visible_segments segs) lines = for_segments body segs lines"
proof (induction segs arbitrary: lines)
  case Nil
  show ?case by (simp add: visible_segments_def)
next
  case (Cons seg segs)
  show ?case
  proof (cases "blank_segment seg")
    case True
    with Cons[of lines] assms[OF True] show ?thesis by (simp add: visible_segments_def)
  next
    case False
    with Cons show ?thesis by (simp add: visible_segments_def split: sum.splits)
  qed
qed

lemma detect_speakers_visible:
  "detect_speakers (visible_segments segs) acc = detect_speakers segs acc"
proof (induction segs arbitrary: acc)
  case Nil
  show ?case by (simp add: visible_segments_def)
next
  case (Cons seg segs)
  show ?case
  proof (cases "blank_segment seg")
    case True
    with Cons[of acc] show ?thesis by (simp add: visible_segments_def blank_segment_text)
  next
    case False
    with Cons show ?thesis
      by (simp add: visible_segments_def split: sum.splits option.splits)
  qed
qed

lemma format_md_basic_visible:
  "get_segments t = PList segs \<Longrightarrow> get_segments t' = PList (visible_segments segs) \<Longrightarrow>
   format_md_basic str t' ts = format_md_basic str t ts"
  by (simp add: format_md_basic_def for_segments_visible[of "md_basic_body str ts"] blank_md_basic_body)

lemma format_md_list_visible:
  "get_segments t = PList segs \<Longrightarrow> get_segments t' = PList (visible_segments segs) \<Longrightarrow>
   format_md_list str t' ts = format_md_list str t ts"
  by (simp add: format_md_list_def for_segments_visible[of "md_list_body str ts"] blank_md_list_body)

lemma format_md_quote_visible:
  "get_segments t = PList segs \<Longrightarrow> get_segments t' = PList (visible_segments segs) \<Longrightarrow>
   format_md_quote str t' ts = format_md_quote str t ts"
  by (simp add: format_md_quote_def for_segments_visible[of "md_quote_body str ts"] blank_md_quote_body)

lemma format_md_table_visible:
  "get_segments t = PList segs \<Longrightarrow> get_segments t' = PList (visible_segments segs) \<Longrightarrow>
   format_md_table str t' ts = format_md_table str t ts"
  by (simp add: format_md_table_def format_two_speaker_table_def format_multi_speaker_table_def
      detect_speakers_visible for_segments_visible[of "multi_speaker_body str ts"]
      for_segments_visible[of "two_speaker_body s0 ts" for s0]
      blank_two_speaker_body blank_multi_speaker_body Let_def
      split: list.splits sum.splits)


text \<open>
  Claim C9.  On a list of segments, each of \<open>format_md_basic\<close>, \<open>format_md_list\<close>,
  \<open>format_md_quote\<close> and \<open>format_md_table\<close>, with or without timestamps, gives the
  output it gives on the sublist of the segments that are not blank; and the speakers
  \<open>format_md_table\<close> detects are those of that sublist.
\<close>

theorem blank_segments_invisible:
  assumes "get_segments t = PList segs"
    and "get_segments t' = PList (visible_segments segs)"
  shows "format_md_basic str t ts = format_md_basic str t' ts
     \<and> format_md_list str t ts = format_md_list str t' ts
     \<and> format_md_quote str t ts = format_md_quote str t' ts
     \<and> format_md_table str t ts = format_md_table str t' ts
     \<and> detect_speakers segs [] = detect_speakers (visible_segments segs) []"
  using assms
  by (simp add: format_md_basic_visible[of t segs t'] format_md_list_visible[of t segs t']
      format_md_quote_visible[of t segs t'] format_md_table_visible[of t segs t']
      detect_speakers_visible)


theorem blank_segments_invisible_witness:
  "get_segments example_transcript = PList example_segments
   \<and> get_segments [(''segments'', PList (visible_segments example_segments))] =
       PList (visible_segments example_segments)
   \<and> length (visible_segments example_segments) = 2
   \<and> format_md_table (\<lambda>v. ''None'') example_transcript True =
       format_md_table (\<lambda>v. ''None'') [(''segments'', PList (visible_segments example_segments))] True
   \<and> detect_speakers example_segments [] = Inr [PStr ''A'', PStr ''Unknown'']
   \<and> detect_speakers (visible_segments example_segments) [] = Inr [PStr ''A'', PStr ''Unknown'']"
proof -
  have a: "get_segments example_transcript = PList example_segments"
    by (simp add: get_segments_def example_transcript_def dict_get_def)
  have b: "get_segments [(''segments'', PList (visible_segments example_segments))] =
       PList (visible_segments example_segments)"
    by (simp add: get_segments_def dict_get_def)
  have c: "length (visible_segments example_segments) = 2" by code_simp
  have d: "detect_speakers example_segments [] = Inr [PStr ''A'', PStr ''Unknown'']" by code_simp
  from blank_segments_invisible[OF a b, of "\<lambda>v. ''None''" True] a b c d
  show ?thesis by simp
qed


section \<open>Defaults for missing fields\<close>
























end
